theory Spec2Isabelle
  imports Complex_Main
begin

section \<open>Deep-zoom viewer: data model\<close>

text \<open>
  The viewer keeps its numbers as JavaScript numbers. They are modelled by exact
  reals (coordinates, sizes) and integers (level indices, level counts); every
  division below is a division by a power of two, by \<open>TILE_SIZE\<close> or by 2.
\<close>

definition TILE_SIZE :: int where
  "TILE_SIZE = 128"

text \<open>\<open>{x, y}\<close> objects (pan offsets and screen points).\<close>

record point =
  x_of :: real
  y_of :: real

text \<open>\<open>ImageDimensions\<close> of \<open>types.ts\<close>; also the shape of \<open>viewportSize\<close>.\<close>

record dims =
  width :: real
  height :: real

text \<open>
  \<open>GeneratedImageData\<close> as the explorer reads it: the tile URLs play no part in the
  coordinate logic and are left out.
\<close>

record image_data =
  originalDimensions :: dims
  numLevels :: int

text \<open>The React state cells of \<open>ImageExplorer\<close> that the transitions read and write.\<close>

record viewport_state =
  zoomIndex :: int
  minZoomIndex :: int
  pan :: point
  viewportSize :: dims

datatype direction = Up | Down | Left | Right

section \<open>ImageExplorer.tsx: the interactive viewer\<close>

text \<open>
  \<open>clampPan\<close> (lines 119-129). One axis is handled by \<open>clampAxis\<close>: the source
  writes the same two lines once for \<open>x\<close>/\<open>width\<close> and once for \<open>y\<close>/\<open>height\<close>.
\<close>

definition clampAxis :: "real \<Rightarrow> real \<Rightarrow> real \<Rightarrow> real" where
  "clampAxis p world view =
     (if world < view then (world - view) / 2
      else max 0 (min p (world - view)))"

definition clampPan :: "point \<Rightarrow> dims \<Rightarrow> dims \<Rightarrow> point" where
  "clampPan newPan worldSize viewSize =
     \<lparr> x_of = clampAxis (x_of newPan) (width worldSize) (width viewSize),
       y_of = clampAxis (y_of newPan) (height worldSize) (height viewSize) \<rparr>"

text \<open>
  \<open>2 ** (numLevels - 1 - i)\<close>, and the level size the viewer derives from it
  (\<open>originalDimensions.width / scale\<close>, \<open>originalDimensions.height / scale\<close>); the
  source repeats these three lines in \<open>getInitialState\<close>, \<open>handleZoom\<close>,
  \<open>handlePan\<close> and the render body.
\<close>

definition levelScale :: "image_data \<Rightarrow> int \<Rightarrow> real" where
  "levelScale d i = 2 powi (numLevels d - 1 - i)"

definition worldSizeAt :: "image_data \<Rightarrow> int \<Rightarrow> dims" where
  "worldSizeAt d i =
     \<lparr> width = width (originalDimensions d) / levelScale d i,
       height = height (originalDimensions d) / levelScale d i \<rparr>"

text \<open>
  The scan of \<open>getInitialState\<close> (lines 134-141): \<open>scanBase d vs i b\<close> is the value of
  \<open>baseIndex\<close> when the loop is entered with counter \<open>i\<close> and \<open>baseIndex = b\<close>.
\<close>

function scanBase :: "image_data \<Rightarrow> dims \<Rightarrow> int \<Rightarrow> int \<Rightarrow> int" where
  "scanBase d vs i b =
     (if i < numLevels d then
        (if width (worldSizeAt d i) > width vs \<or> height (worldSizeAt d i) > height vs
         then b
         else scanBase d vs (i + 1) i)
      else b)"
  by pat_completeness auto
termination
  by (relation "measure (\<lambda>(d, vs, i, b). nat (numLevels d - i))") auto

declare scanBase.simps [simp del]

text \<open>
  \<open>getInitialState\<close> (lines 131-152). \<open>None\<close> is the source's \<open>null\<close>; the result
  carries the viewport size it was computed for.
\<close>

definition getInitialState :: "image_data \<Rightarrow> dims \<Rightarrow> viewport_state option" where
  "getInitialState d vs =
     (if width vs = 0 then None
      else
        let baseIndex = scanBase d vs 0 0 in
        Some \<lparr> zoomIndex = baseIndex,
               minZoomIndex = baseIndex,
               pan = clampPan \<lparr> x_of = 0, y_of = 0 \<rparr> (worldSizeAt d baseIndex) vs,
               viewportSize = vs \<rparr>)"

text \<open>\<open>handleZoom\<close> (lines 212-234).\<close>

definition handleZoom :: "image_data \<Rightarrow> viewport_state \<Rightarrow> int \<Rightarrow> point \<Rightarrow> viewport_state" where
  "handleZoom d s newZoomIndex screenPoint =
     (let oldZoomIndex = zoomIndex s in
      if newZoomIndex = oldZoomIndex then s
      else
        let clampedNewZoomIndex = max (minZoomIndex s) (min newZoomIndex (numLevels d - 1));
            oldScale = levelScale d oldZoomIndex;
            newScale = levelScale d clampedNewZoomIndex;
            zoomRatio = oldScale / newScale;
            worldPointX = x_of (pan s) + x_of screenPoint;
            worldPointY = y_of (pan s) + y_of screenPoint;
            newWorldPointX = worldPointX * zoomRatio;
            newWorldPointY = worldPointY * zoomRatio;
            newPanX = newWorldPointX - x_of screenPoint;
            newPanY = newWorldPointY - y_of screenPoint
        in s \<lparr> zoomIndex := clampedNewZoomIndex,
               pan := clampPan \<lparr> x_of = newPanX, y_of = newPanY \<rparr>
                        (worldSizeAt d clampedNewZoomIndex) (viewportSize s) \<rparr>)"

text \<open>\<open>handlePan\<close> (lines 236-250); \<open>panAmount\<close> is the constant \<open>0.25\<close>.\<close>

definition panAmount :: real where
  "panAmount = 0.25"

definition handlePan :: "image_data \<Rightarrow> viewport_state \<Rightarrow> direction \<Rightarrow> viewport_state" where
  "handlePan d s dir =
     (let p0 = pan s;
          p1 = (if dir = Left then p0 \<lparr> x_of := x_of p0 - width (viewportSize s) * panAmount \<rparr> else p0);
          p2 = (if dir = Right then p1 \<lparr> x_of := x_of p1 + width (viewportSize s) * panAmount \<rparr> else p1);
          p3 = (if dir = Up then p2 \<lparr> y_of := y_of p2 - height (viewportSize s) * panAmount \<rparr> else p2);
          newPan = (if dir = Down then p3 \<lparr> y_of := y_of p3 + height (viewportSize s) * panAmount \<rparr> else p3)
      in s \<lparr> pan := clampPan newPan (worldSizeAt d (zoomIndex s)) (viewportSize s) \<rparr>)"

text \<open>
  The visible tile window of the render effect (lines 176-179), as
  \<open>(startCol, endCol, startRow, endRow)\<close>.
\<close>

definition visibleTileRange :: "viewport_state \<Rightarrow> int \<times> int \<times> int \<times> int" where
  "visibleTileRange s =
     (\<lfloor>x_of (pan s) / real_of_int TILE_SIZE\<rfloor>,
      \<lceil>(x_of (pan s) + width (viewportSize s)) / real_of_int TILE_SIZE\<rceil>,
      \<lfloor>y_of (pan s) / real_of_int TILE_SIZE\<rfloor>,
      \<lceil>(y_of (pan s) + height (viewportSize s)) / real_of_int TILE_SIZE\<rceil>)"

section \<open>The standalone export (\<open>createStandaloneHtml\<close>)\<close>

text \<open>
  The exported \<open>index.html\<close> carries its own copy of the viewer. The definitions below
  follow that copy's text line by line, without the helpers used for the component above.
\<close>

definition sa_clampPan :: "point \<Rightarrow> dims \<Rightarrow> dims \<Rightarrow> point" where
  "sa_clampPan newPan worldSize viewSize =
     (let x0 = x_of newPan;
          y0 = y_of newPan;
          x1 = (if width worldSize < width viewSize then (width worldSize - width viewSize) / 2
                else max 0 (min x0 (width worldSize - width viewSize)));
          y1 = (if height worldSize < height viewSize then (height worldSize - height viewSize) / 2
                else max 0 (min y0 (height worldSize - height viewSize)))
      in \<lparr> x_of = x1, y_of = y1 \<rparr>)"

function sa_scanBase :: "image_data \<Rightarrow> dims \<Rightarrow> int \<Rightarrow> int \<Rightarrow> int" where
  "sa_scanBase d vs i b =
     (if i < numLevels d then
        (if width (originalDimensions d) / 2 powi (numLevels d - 1 - i) > width vs
            \<or> height (originalDimensions d) / 2 powi (numLevels d - 1 - i) > height vs
         then b
         else sa_scanBase d vs (i + 1) i)
      else b)"
  by pat_completeness auto
termination
  by (relation "measure (\<lambda>(d, vs, i, b). nat (numLevels d - i))") auto

declare sa_scanBase.simps [simp del]

definition sa_getInitialState :: "image_data \<Rightarrow> dims \<Rightarrow> viewport_state option" where
  "sa_getInitialState d vs =
     (if width vs = 0 then None
      else
        let baseIndex = sa_scanBase d vs 0 0;
            scale = 2 powi (numLevels d - 1 - baseIndex);
            worldWidth = width (originalDimensions d) / scale;
            worldHeight = height (originalDimensions d) / scale
        in Some \<lparr> zoomIndex = baseIndex,
                  minZoomIndex = baseIndex,
                  pan = sa_clampPan \<lparr> x_of = 0, y_of = 0 \<rparr>
                          \<lparr> width = worldWidth, height = worldHeight \<rparr> vs,
                  viewportSize = vs \<rparr>)"

definition sa_handleZoom :: "image_data \<Rightarrow> viewport_state \<Rightarrow> int \<Rightarrow> point \<Rightarrow> viewport_state" where
  "sa_handleZoom d s newZoomIndex screenPoint =
     (let oldZoomIndex = zoomIndex s in
      if newZoomIndex = oldZoomIndex then s
      else
        let clampedNewZoomIndex = max (minZoomIndex s) (min newZoomIndex (numLevels d - 1));
            oldScale = 2 powi (numLevels d - 1 - oldZoomIndex);
            newScale = 2 powi (numLevels d - 1 - clampedNewZoomIndex);
            zoomRatio = oldScale / newScale;
            newWorldWidth = width (originalDimensions d) / newScale;
            newWorldHeight = height (originalDimensions d) / newScale;
            worldPointX = x_of (pan s) + x_of screenPoint;
            worldPointY = y_of (pan s) + y_of screenPoint;
            newWorldPointX = worldPointX * zoomRatio;
            newWorldPointY = worldPointY * zoomRatio;
            newPanX = newWorldPointX - x_of screenPoint;
            newPanY = newWorldPointY - y_of screenPoint
        in s \<lparr> zoomIndex := clampedNewZoomIndex,
               pan := sa_clampPan \<lparr> x_of = newPanX, y_of = newPanY \<rparr>
                        \<lparr> width = newWorldWidth, height = newWorldHeight \<rparr> (viewportSize s) \<rparr>)"

definition sa_handlePan :: "image_data \<Rightarrow> viewport_state \<Rightarrow> direction \<Rightarrow> viewport_state" where
  "sa_handlePan d s dir =
     (let panAmount = 0.25;
          p0 = pan s;
          p1 = (if dir = Left then p0 \<lparr> x_of := x_of p0 - width (viewportSize s) * panAmount \<rparr> else p0);
          p2 = (if dir = Right then p1 \<lparr> x_of := x_of p1 + width (viewportSize s) * panAmount \<rparr> else p1);
          p3 = (if dir = Up then p2 \<lparr> y_of := y_of p2 - height (viewportSize s) * panAmount \<rparr> else p2);
          newPan = (if dir = Down then p3 \<lparr> y_of := y_of p3 + height (viewportSize s) * panAmount \<rparr> else p3);
          scale = 2 powi (numLevels d - 1 - zoomIndex s);
          worldWidth = width (originalDimensions d) / scale;
          worldHeight = height (originalDimensions d) / scale
      in s \<lparr> pan := sa_clampPan newPan \<lparr> width = worldWidth, height = worldHeight \<rparr>
                       (viewportSize s) \<rparr>)"

definition sa_visibleTileRange :: "viewport_state \<Rightarrow> int \<times> int \<times> int \<times> int" where
  "sa_visibleTileRange s =
     (let startCol = \<lfloor>x_of (pan s) / 128\<rfloor>;
          endCol = \<lceil>(x_of (pan s) + width (viewportSize s)) / 128\<rceil>;
          startRow = \<lfloor>y_of (pan s) / 128\<rfloor>;
          endRow = \<lceil>(y_of (pan s) + height (viewportSize s)) / 128\<rceil>
      in (startCol, endCol, startRow, endRow))"

section \<open>The pyramid builder\<close>

text \<open>
  \<open>numLevels\<close> as the worker script computes it (lines 98-99):
  \<open>Math.ceil(Math.log2(maxDim / TILE_SIZE)) + 1\<close>. A decoded bitmap has width and
  height at least 1, so \<open>maxDim \<ge> 1\<close>.
\<close>

definition worker_numLevels :: "int \<Rightarrow> int \<Rightarrow> int" where
  "worker_numLevels w h =
     (let maxDim = max w h
      in \<lceil>log 2 (real_of_int maxDim / real_of_int TILE_SIZE)\<rceil> + 1)"

text \<open>
  The Python script (lines 194-195):
  \<open>math.ceil(math.log2(max_dim / TILE_SIZE)) + 1 if max_dim > 0 else 1\<close>.
\<close>

definition py_num_levels :: "int \<Rightarrow> int \<Rightarrow> int" where
  "py_num_levels w h =
     (let max_dim = max w h
      in if max_dim > 0 then \<lceil>log 2 (real_of_int max_dim / real_of_int TILE_SIZE)\<rceil> + 1 else 1)"


text \<open>
  One tile as the worker produces it: a fresh \<open>OffscreenCanvas(TILE_SIZE, TILE_SIZE)\<close>
  (transparent) and one
  \<open>drawImage(currentCanvas, sx, sy, sWidth, sHeight, 0, 0, sWidth, sHeight)\<close> onto it.
  The tile is stored under its level and the key \<open>y_x\<close>.
\<close>

record tile =
  tile_level :: int
  tile_row :: int
  tile_col :: int
  canvasWidth :: int
  canvasHeight :: int
  src_x :: int
  src_y :: int
  src_w :: int
  src_h :: int
  dst_x :: int
  dst_y :: int
  dst_w :: int
  dst_h :: int

definition makeTile :: "int \<Rightarrow> int \<Rightarrow> int \<Rightarrow> int \<Rightarrow> int \<Rightarrow> tile" where
  "makeTile level levelWidth levelHeight y x =
     (let sx = x * TILE_SIZE;
          sy = y * TILE_SIZE;
          sWidth = min TILE_SIZE (levelWidth - sx);
          sHeight = min TILE_SIZE (levelHeight - sy)
      in \<lparr> tile_level = level, tile_row = y, tile_col = x,
           canvasWidth = TILE_SIZE, canvasHeight = TILE_SIZE,
           src_x = sx, src_y = sy, src_w = sWidth, src_h = sHeight,
           dst_x = 0, dst_y = 0, dst_w = sWidth, dst_h = sHeight \<rparr>)"

text \<open>
  The grid of one level (lines 112-135): \<open>cols\<close> and \<open>rows\<close> by \<open>Math.ceil\<close>, then the
  two nested loops, rows outside, columns inside.
\<close>

definition gridCols :: "int \<Rightarrow> int" where
  "gridCols levelWidth = \<lceil>real_of_int levelWidth / real_of_int TILE_SIZE\<rceil>"

definition gridRows :: "int \<Rightarrow> int" where
  "gridRows levelHeight = \<lceil>real_of_int levelHeight / real_of_int TILE_SIZE\<rceil>"

definition levelTiles :: "int \<Rightarrow> int \<Rightarrow> int \<Rightarrow> tile list" where
  "levelTiles level levelWidth levelHeight =
     concat (map (\<lambda>y. map (\<lambda>x. makeTile level levelWidth levelHeight y x)
                          [0 .. gridCols levelWidth - 1])
                 [0 .. gridRows levelHeight - 1])"

text \<open>
  The Python script's tile (lines 212-223): \<open>crop(left, top, width, height)\<close>, then
  \<open>embed(0, 0, TILE_SIZE, TILE_SIZE)\<close> on a transparent background. The embed size is
  the canvas, the crop rectangle the source rectangle, the embed offset the destination.
\<close>

definition py_makeTile :: "int \<Rightarrow> int \<Rightarrow> int \<Rightarrow> int \<Rightarrow> int \<Rightarrow> tile" where
  "py_makeTile level level_width level_height y x =
     (let left = x * TILE_SIZE;
          top = y * TILE_SIZE;
          w = min TILE_SIZE (level_width - left);
          h = min TILE_SIZE (level_height - top)
      in \<lparr> tile_level = level, tile_row = y, tile_col = x,
           canvasWidth = TILE_SIZE, canvasHeight = TILE_SIZE,
           src_x = left, src_y = top, src_w = w, src_h = h,
           dst_x = 0, dst_y = 0, dst_w = w, dst_h = h \<rparr>)"

definition py_levelTiles :: "int \<Rightarrow> int \<Rightarrow> int \<Rightarrow> tile list" where
  "py_levelTiles level level_width level_height =
     (let cols = \<lceil>real_of_int level_width / real_of_int TILE_SIZE\<rceil>;
          rows = \<lceil>real_of_int level_height / real_of_int TILE_SIZE\<rceil>
      in concat (map (\<lambda>y. map (\<lambda>x. py_makeTile level level_width level_height y x)
                               [0 .. cols - 1])
                      [0 .. rows - 1]))"

text \<open>Decimal rendering of a number inside a template string.\<close>

fun showNat :: "nat \<Rightarrow> string" where
  "showNat n =
     (if n < 10 then [''0123456789'' ! n]
      else showNat (n div 10) @ [''0123456789'' ! (n mod 10)])"

declare showNat.simps [simp del]

definition showInt :: "int \<Rightarrow> string" where
  "showInt i = (if i < 0 then CHR ''-'' # showNat (nat (- i)) else showNat (nat i))"

text \<open>The progress text of line 107: \<open>Processing level ${level}/${numLevels - 1}...\<close>.\<close>

definition progressMessage :: "int \<Rightarrow> int \<Rightarrow> string" where
  "progressMessage level nLevels =
     ''Processing level '' @ showInt level @ ''/'' @ showInt (nLevels - 1) @ ''...''"

definition tooLargeMessage :: string where
  "tooLargeMessage =
     ''The image is too large for the browser to process. Please use the '' @
     [CHR 0x27] @ ''Load Pre-Tiled Set'' @ [CHR 0x27] @ '' option.''"

text \<open>The \<open>data\<close> object of the \<open>done\<close> message.\<close>

record built_pyramid =
  built_tiles :: "tile list"
  built_width :: int
  built_height :: int
  built_numLevels :: int

text \<open>The three messages the worker posts.\<close>

datatype worker_msg =
    Progress string
  | Done built_pyramid
  | Error string

text \<open>
  What the worker does, in order: a message it posts, or the completion of one level's
  tiling (\<open>await Promise.all(tilePromises)\<close>) with the level, the size of
  \<open>currentCanvas\<close> at that level, and the tiles stored into \<open>allTiles[level]\<close>.
\<close>

datatype worker_event =
    Posted worker_msg
  | LevelTiled int int int "tile list"

text \<open>
  The host may throw inside the \<open>try\<close> block (canvas allocation, encoding, drawing).
  For each level it either lets the level through, throws while the level is being
  tiled, or throws while the next canvas is being produced (only for \<open>level > 0\<close>).
\<close>

datatype host_outcome = Succeeds | ThrowsWhileTiling | ThrowsWhileDownsampling

text \<open>
  The \<open>for\<close> loop of lines 106-149, entered with \<open>level = l\<close> for \<open>levelLoop _ _ (Suc l)\<close>
  and \<open>currentCanvas\<close> of size \<open>w \<times> h\<close>. The boolean tells whether the loop ran to its
  end (\<open>True\<close>) or an exception left the \<open>try\<close> block (\<open>False\<close>).
\<close>

fun levelLoop :: "(int \<Rightarrow> host_outcome) \<Rightarrow> int \<Rightarrow> nat \<Rightarrow> int \<Rightarrow> int \<Rightarrow> worker_event list \<times> bool" where
  "levelLoop host nLevels 0 w h = ([], True)"
| "levelLoop host nLevels (Suc l) w h =
     (let level = int l;
          progress = Posted (Progress (progressMessage level nLevels));
          tiled = LevelTiled level w h (levelTiles level w h)
      in if host level = ThrowsWhileTiling then ([progress], False)
         else if host level = ThrowsWhileDownsampling \<and> level > 0 then ([progress, tiled], False)
         else
           let nextWidth = (if level > 0 then w div 2 else w);
               nextHeight = (if level > 0 then h div 2 else h);
               (rest, finished) = levelLoop host nLevels l nextWidth nextHeight
           in (progress # tiled # rest, finished))"

declare levelLoop.simps(2) [simp del]

text \<open>\<open>allTiles\<close> as it stands after the events \<open>evs\<close>.\<close>

fun allTiles :: "worker_event list \<Rightarrow> tile list" where
  "allTiles [] = []"
| "allTiles (LevelTiled level w h ts # evs) = ts @ allTiles evs"
| "allTiles (Posted m # evs) = allTiles evs"

text \<open>
  \<open>self.onmessage\<close> of the worker script (lines 92-165), for a worker that runs to the end
  of its handler. \<open>decoded\<close> is what happens before the loop: \<open>None\<close> when
  \<open>createImageBitmap\<close> rejects or the first canvas cannot be made, otherwise the bitmap's
  width and height.
\<close>

definition worker :: "(int \<times> int) option \<Rightarrow> (int \<Rightarrow> host_outcome) \<Rightarrow> worker_event list" where
  "worker decoded host =
     (case decoded of
        None \<Rightarrow> [Posted (Error tooLargeMessage)]
      | Some (w, h) \<Rightarrow>
          let nLevels = worker_numLevels w h;
              (evs, finished) = levelLoop host nLevels (nat nLevels) w h
          in if finished
             then evs @ [Posted (Done \<lparr> built_tiles = allTiles evs, built_width = w,
                                         built_height = h, built_numLevels = nLevels \<rparr>)]
             else evs @ [Posted (Error tooLargeMessage)])"

text \<open>
  The \<open>done\<close> handler of \<open>generateTiles\<close> (lines 581-604) hands the pyramid to the
  explorer with the same \<open>originalDimensions\<close> and \<open>numLevels\<close>.
\<close>

definition toImageData :: "built_pyramid \<Rightarrow> image_data" where
  "toImageData p =
     \<lparr> originalDimensions = \<lparr> width = real_of_int (built_width p),
                               height = real_of_int (built_height p) \<rparr>,
       numLevels = built_numLevels p \<rparr>"

text \<open>The size of \<open>currentCanvas\<close> at level \<open>i\<close>, read off the worker's events.\<close>

fun builtLevelSize :: "worker_event list \<Rightarrow> int \<Rightarrow> (int \<times> int) option" where
  "builtLevelSize [] i = None"
| "builtLevelSize (LevelTiled level w h ts # evs) i =
     (if level = i then Some (w, h) else builtLevelSize evs i)"
| "builtLevelSize (Posted m # evs) i = builtLevelSize evs i"


text \<open>A host on which nothing throws.\<close>

definition hostSucceeds :: "int \<Rightarrow> host_outcome" where
  "hostSucceeds level = Succeeds"

text \<open>The pyramid of the \<open>done\<close> message, when one was posted.\<close>

fun donePayload :: "worker_event list \<Rightarrow> built_pyramid option" where
  "donePayload [] = None"
| "donePayload (Posted (Done p) # evs) = Some p"
| "donePayload (e # evs) = donePayload evs"


section \<open>Loading a persisted tile set (\<open>handleZipFile\<close>)\<close>

text \<open>
  Strings are lists of characters. \<open>replace_first\<close> is \<open>String.prototype.replace\<close>
  with a string pattern (first occurrence only), \<open>stripSemicolon\<close> is
  \<open>replace(/;$/, '')\<close>, \<open>split_on\<close> is \<open>split\<close> with a one-character separator.
  \<open>String.prototype.trim\<close> depends on the full set of Unicode white space and line
  terminators; it is taken from the host, below.
\<close>

fun replace_first :: "string \<Rightarrow> string \<Rightarrow> string \<Rightarrow> string" where
  "replace_first pat rep [] = (if pat = [] then rep else [])"
| "replace_first pat rep (c # cs) =
     (if take (length pat) (c # cs) = pat then rep @ drop (length pat) (c # cs)
      else c # replace_first pat rep cs)"

definition stripSemicolon :: "string \<Rightarrow> string" where
  "stripSemicolon s = (if s \<noteq> [] \<and> last s = CHR '';'' then butlast s else s)"

fun split_on :: "char \<Rightarrow> string \<Rightarrow> string list" where
  "split_on c [] = [[]]"
| "split_on c (x # xs) =
     (if x = c then [] # split_on c xs
      else (case split_on c xs of [] \<Rightarrow> [[x]] | p # ps \<Rightarrow> (x # p) # ps))"

text \<open>JSON values as \<open>JSON.parse\<close> returns them.\<close>

datatype json =
    JNull
  | JBool bool
  | JNum real
  | JStr string
  | JArr "json list"
  | JObj "(string \<times> json) list"

text \<open>
  What the host contributes: \<open>String.prototype.trim\<close>, \<open>JSON.parse\<close> (\<open>Inl\<close> is the
  message of the \<open>SyntaxError\<close> it throws), \<open>Number\<close> applied to a string (\<open>None\<close> is
  \<open>NaN\<close>), and the message of the \<open>TypeError\<close> thrown when \<open>null\<close> is destructured.
\<close>

record zip_host =
  String_trim :: "string \<Rightarrow> string"
  JSON_parse :: "string \<Rightarrow> string + json"
  toNumber :: "string \<Rightarrow> real option"
  nullDestructureMessage :: string

text \<open>An entry of the archive: its path, whether it is a directory, and its content.\<close>

record zip_entry =
  entry_name :: string
  entry_dir :: bool
  entry_text :: string

text \<open>\<open>content.file(name)\<close>: the file of that name, \<open>None\<close> for \<open>null\<close>.\<close>

definition zipFile :: "zip_entry list \<Rightarrow> string \<Rightarrow> zip_entry option" where
  "zipFile content name = find (\<lambda>e. entry_name e = name \<and> \<not> entry_dir e) content"

text \<open>\<open>content.file(/^tiles\<^verbatim>\<open>\\/\<close>/)\<close>: the files whose path starts with \<open>tiles/\<close>.\<close>

definition zipTileFiles :: "zip_entry list \<Rightarrow> zip_entry list" where
  "zipTileFiles content =
     filter (\<lambda>e. \<not> entry_dir e \<and> take 6 (entry_name e) = ''tiles/'') content"

text \<open>The data handed to the explorer: tile URLs by level and key, and the two manifest fields.\<close>

record loaded_data =
  loaded_tiles :: "(real \<times> string \<times> string) list"
  loaded_originalDimensions :: json
  loaded_numLevels :: json

text \<open>What \<open>handleZipFile\<close> does that can be observed, in order.\<close>

datatype ui_effect =
    SetIsProcessing bool
  | SetProgressMessage string
  | ReadTileBlob string
  | CreateObjectURL string
  | SetGeneratedBlobs
  | SetGeneratedData loaded_data
  | OnTilesGenerated loaded_data
  | ConsoleError string
  | Alert string

text \<open>JavaScript truthiness of a destructured field (\<open>None\<close> is \<open>undefined\<close>).\<close>

fun truthy :: "json option \<Rightarrow> bool" where
  "truthy None = False"
| "truthy (Some JNull) = False"
| "truthy (Some (JBool b)) = b"
| "truthy (Some (JNum n)) = (n \<noteq> 0)"
| "truthy (Some (JStr s)) = (s \<noteq> [])"
| "truthy (Some (JArr xs)) = True"
| "truthy (Some (JObj kvs)) = True"

text \<open>
  \<open>const { originalDimensions, numLevels } = imageData\<close>: a \<open>TypeError\<close> on \<open>null\<close>, the
  two properties of an object, and \<open>undefined\<close> twice on any other value.
\<close>

fun destructure :: "zip_host \<Rightarrow> json \<Rightarrow> string + (json option \<times> json option)" where
  "destructure host JNull = Inl (nullDestructureMessage host)"
| "destructure host (JObj kvs) = Inr (map_of kvs ''originalDimensions'', map_of kvs ''numLevels'')"
| "destructure host v = Inr (None, None)"

text \<open>The text handed to \<open>JSON.parse\<close> (line 484).\<close>

definition manifestJson :: "zip_host \<Rightarrow> string \<Rightarrow> string" where
  "manifestJson host imageDataStr =
     stripSemicolon (String_trim host (replace_first ''window.imageData ='' [] imageDataStr))"

text \<open>
  The body of the \<open>map\<close> callback (lines 496-515) for one tile file: the effects it has and
  the \<open>(level, key, url)\<close> it records, if any. The URL is named after the file.
\<close>

definition extractTile :: "zip_host \<Rightarrow> zip_entry \<Rightarrow> ui_effect list \<times> (real \<times> string \<times> string) list" where
  "extractTile host tileFile =
     (if entry_dir tileFile then ([], [])
      else
        let pathParts = split_on CHR ''/'' (entry_name tileFile) in
        if length pathParts \<noteq> 3 then ([], [])
        else
          let key = replace_first ''.png'' [] (pathParts ! 2) in
          case toNumber host (pathParts ! 1) of
            None \<Rightarrow> ([], [])
          | Some level \<Rightarrow>
              ([ReadTileBlob (entry_name tileFile), CreateObjectURL (entry_name tileFile)],
               [(level, key, entry_name tileFile)]))"

text \<open>
  The \<open>try\<close> block (lines 476-521): the effects it has, and the message of the error
  that ended it, if one did. \<open>file\<close> is the outcome of \<open>zip.loadAsync\<close>: \<open>Inl\<close> when it rejects.
\<close>

definition tryLoad :: "zip_host \<Rightarrow> string + zip_entry list \<Rightarrow> ui_effect list \<times> string option" where
  "tryLoad host file =
     (case file of
        Inl msg \<Rightarrow> ([], Some msg)
      | Inr content \<Rightarrow>
          (case zipFile content ''image_data.js'' of
             None \<Rightarrow> ([], Some ''image_data.js not found in the ZIP file.'')
           | Some imageDataFile \<Rightarrow>
               (case JSON_parse host (manifestJson host (entry_text imageDataFile)) of
                  Inl msg \<Rightarrow> ([], Some msg)
                | Inr imageData \<Rightarrow>
                    (case destructure host imageData of
                       Inl msg \<Rightarrow> ([], Some msg)
                     | Inr (originalDimensions', numLevels') \<Rightarrow>
                         if \<not> truthy originalDimensions' \<or> \<not> truthy numLevels'
                         then ([], Some ''Invalid image_data.js format.'')
                         else
                           let extracted = map (extractTile host) (zipTileFiles content);
                               finalData = \<lparr> loaded_tiles = concat (map snd extracted),
                                             loaded_originalDimensions = the originalDimensions',
                                             loaded_numLevels = the numLevels' \<rparr>
                           in ([SetProgressMessage ''Extracting tiles...'']
                               @ concat (map fst extracted)
                               @ [SetGeneratedBlobs, SetGeneratedData finalData,
                                  OnTilesGenerated finalData],
                               None)))))"

text \<open>\<open>handleZipFile\<close> (lines 469-531): the \<open>try\<close> block between its prologue, \<open>catch\<close> and \<open>finally\<close>.\<close>

definition handleZipFile :: "zip_host \<Rightarrow> string + zip_entry list \<Rightarrow> ui_effect list" where
  "handleZipFile host file =
     [SetIsProcessing True, SetProgressMessage ''Reading ZIP file...'']
     @ (case tryLoad host file of
          (effects, None) \<Rightarrow> effects
        | (effects, Some msg) \<Rightarrow>
            effects @ [ConsoleError msg, Alert (''Failed to load tile set: '' @ msg)])
     @ [SetIsProcessing False, SetProgressMessage []]"

text \<open>A failed load: nothing but the prologue, the error report and the epilogue.\<close>

definition failedLoad :: "string \<Rightarrow> ui_effect list" where
  "failedLoad msg =
     [SetIsProcessing True, SetProgressMessage ''Reading ZIP file...'',
      ConsoleError msg, Alert (''Failed to load tile set: '' @ msg),
      SetIsProcessing False, SetProgressMessage []]"

text \<open>Effects that touch a tile or publish the tile set.\<close>

fun touchesTilesOrPublishes :: "ui_effect \<Rightarrow> bool" where
  "touchesTilesOrPublishes (ReadTileBlob n) = True"
| "touchesTilesOrPublishes (CreateObjectURL n) = True"
| "touchesTilesOrPublishes SetGeneratedBlobs = True"
| "touchesTilesOrPublishes (SetGeneratedData d) = True"
| "touchesTilesOrPublishes (OnTilesGenerated d) = True"
| "touchesTilesOrPublishes e = False"

text \<open>
  A host for examples. Its texts are ASCII, on which \<open>trim\<close> removes tab, line feed,
  vertical tab, form feed, carriage return and space at both ends; its \<open>JSON.parse\<close>
  accepts \<open>{}\<close> and nothing else.
\<close>

definition asciiSpace :: "char \<Rightarrow> bool" where
  "asciiSpace c \<longleftrightarrow> c \<in> set [CHR 0x09, CHR 0x0A, CHR 0x0B, CHR 0x0C, CHR 0x0D, CHR '' '']"

definition asciiTrim :: "string \<Rightarrow> string" where
  "asciiTrim s = rev (dropWhile asciiSpace (rev (dropWhile asciiSpace s)))"

definition exampleHost :: zip_host where
  "exampleHost =
     \<lparr> String_trim = asciiTrim,
       JSON_parse = (\<lambda>s. if s = ''{}'' then Inr (JObj []) else Inl ''Unexpected token''),
       toNumber = (\<lambda>s. if s = ''0'' then Some 0 else None),
       nullDestructureMessage = ''Cannot destructure property of null'' \<rparr>"

definition exampleTile :: zip_entry where
  "exampleTile = \<lparr> entry_name = ''tiles/0/0_0.png'', entry_dir = False, entry_text = ''png'' \<rparr>"

definition exampleManifest :: "string \<Rightarrow> zip_entry" where
  "exampleManifest text = \<lparr> entry_name = ''image_data.js'', entry_dir = False, entry_text = text \<rparr>"

section \<open>Predicates on viewer states\<close>

text \<open>The zoom-index invariant of the data model: \<open>minZoomIndex \<le> zoomIndex \<le> numLevels - 1\<close>.\<close>

definition zoomIndexInRange :: "image_data \<Rightarrow> viewport_state \<Rightarrow> bool" where
  "zoomIndexInRange d s \<longleftrightarrow> minZoomIndex s \<le> zoomIndex s \<and> zoomIndex s \<le> numLevels d - 1"



section \<open>Properties of the pan clamp\<close>

lemma clampAxis_centre: "world < view \<Longrightarrow> clampAxis p world view = (world - view) / 2"
  by (simp add: clampAxis_def)

lemma clampAxis_inside:
  "view \<le> world \<Longrightarrow> clampAxis p world view = max 0 (min p (world - view))"
  by (simp add: clampAxis_def)

lemma clampAxis_bounds:
  "view \<le> world \<Longrightarrow> 0 \<le> clampAxis p world view \<and> clampAxis p world view \<le> world - view"
  by (simp add: clampAxis_def)


text \<open>
  Claim C2. On each axis independently, \<open>clampPan\<close> returns \<open>(worldSize - viewSize)/2\<close>
  when the world is narrower than the view, and otherwise the input pan clamped into
  the closed interval \<open>[0, worldSize - viewSize]\<close>, so that the result then lies in
  that interval.
\<close>

theorem clampPan_per_axis:
  "(width worldSize < width viewSize \<longrightarrow>
      x_of (clampPan newPan worldSize viewSize) = (width worldSize - width viewSize) / 2) \<and>
   (width viewSize \<le> width worldSize \<longrightarrow>
      x_of (clampPan newPan worldSize viewSize)
        = max 0 (min (x_of newPan) (width worldSize - width viewSize)) \<and>
      0 \<le> x_of (clampPan newPan worldSize viewSize) \<and>
      x_of (clampPan newPan worldSize viewSize) \<le> width worldSize - width viewSize) \<and>
   (height worldSize < height viewSize \<longrightarrow>
      y_of (clampPan newPan worldSize viewSize) = (height worldSize - height viewSize) / 2) \<and>
   (height viewSize \<le> height worldSize \<longrightarrow>
      y_of (clampPan newPan worldSize viewSize)
        = max 0 (min (y_of newPan) (height worldSize - height viewSize)) \<and>
      0 \<le> y_of (clampPan newPan worldSize viewSize) \<and>
      y_of (clampPan newPan worldSize viewSize) \<le> height worldSize - height viewSize)"
  by (simp add: clampPan_def clampAxis_def)

theorem clampPan_per_axis_witness:
  "x_of (clampPan \<lparr> x_of = 700, y_of = -3 \<rparr> \<lparr> width = 1000, height = 300 \<rparr>
                  \<lparr> width = 400, height = 400 \<rparr>) = 600 \<and>
   y_of (clampPan \<lparr> x_of = 700, y_of = -3 \<rparr> \<lparr> width = 1000, height = 300 \<rparr>
                  \<lparr> width = 400, height = 400 \<rparr>) = -50"
  using clampPan_per_axis [of "\<lparr> width = 1000, height = 300 \<rparr>" "\<lparr> width = 400, height = 400 \<rparr>"
                              "\<lparr> x_of = 700, y_of = -3 \<rparr>"]
  by simp

lemma levelScale_pos: "0 < levelScale d i"
  by (simp add: levelScale_def)


section \<open>Zoom about a point\<close>

text \<open>
  Claim C1. When the target index differs from the current \<open>zoomIndex\<close>, \<open>handleZoom\<close>
  commits the clamped target and sets the pan to
  \<open>(pan + screenPoint) * (oldScale / newScale) - screenPoint\<close>, clamped against the new
  level's world size, with \<open>oldScale = 2^(numLevels-1-zoomIndex)\<close> and
  \<open>newScale = 2^(numLevels-1-clampedTarget)\<close>. In particular, with pan \<open>(100, 50)\<close>,
  screen point \<open>(300, 200)\<close>, \<open>oldScale = 4\<close> and \<open>newScale = 2\<close>, the pan handed to
  the clamp is \<open>(500, 300)\<close>.
\<close>

theorem handleZoom_pan_formula:
  "(newZoomIndex \<noteq> zoomIndex s \<longrightarrow>
     (let c = max (minZoomIndex s) (min newZoomIndex (numLevels d - 1));
          oldScale = 2 powi (numLevels d - 1 - zoomIndex s);
          newScale = 2 powi (numLevels d - 1 - c);
          newPan = \<lparr> x_of = (x_of (pan s) + x_of sp) * (oldScale / newScale) - x_of sp,
                     y_of = (y_of (pan s) + y_of sp) * (oldScale / newScale) - y_of sp \<rparr>
      in zoomIndex (handleZoom d s newZoomIndex sp) = c \<and>
         pan (handleZoom d s newZoomIndex sp) =
           clampPan newPan
             \<lparr> width = width (originalDimensions d) / newScale,
               height = height (originalDimensions d) / newScale \<rparr>
             (viewportSize s))) \<and>
   (newZoomIndex \<noteq> zoomIndex s \<and>
    numLevels d - 1 - zoomIndex s = 2 \<and>
    numLevels d - 1 - max (minZoomIndex s) (min newZoomIndex (numLevels d - 1)) = 1 \<and>
    pan s = \<lparr> x_of = 100, y_of = 50 \<rparr> \<and> sp = \<lparr> x_of = 300, y_of = 200 \<rparr> \<longrightarrow>
      pan (handleZoom d s newZoomIndex sp) =
        clampPan \<lparr> x_of = 500, y_of = 300 \<rparr>
          \<lparr> width = width (originalDimensions d) / 2,
            height = height (originalDimensions d) / 2 \<rparr>
          (viewportSize s))"
proof (intro conjI impI)
  assume "newZoomIndex \<noteq> zoomIndex s"
  then show "let c = max (minZoomIndex s) (min newZoomIndex (numLevels d - 1));
          oldScale = 2 powi (numLevels d - 1 - zoomIndex s);
          newScale = 2 powi (numLevels d - 1 - c);
          newPan = \<lparr> x_of = (x_of (pan s) + x_of sp) * (oldScale / newScale) - x_of sp,
                     y_of = (y_of (pan s) + y_of sp) * (oldScale / newScale) - y_of sp \<rparr>
      in zoomIndex (handleZoom d s newZoomIndex sp) = c \<and>
         pan (handleZoom d s newZoomIndex sp) =
           clampPan newPan
             \<lparr> width = width (originalDimensions d) / newScale,
               height = height (originalDimensions d) / newScale \<rparr>
             (viewportSize s)"
    by (simp add: handleZoom_def Let_def levelScale_def worldSizeAt_def)
next
  assume a: "newZoomIndex \<noteq> zoomIndex s \<and>
    numLevels d - 1 - zoomIndex s = 2 \<and>
    numLevels d - 1 - max (minZoomIndex s) (min newZoomIndex (numLevels d - 1)) = 1 \<and>
    pan s = \<lparr> x_of = 100, y_of = 50 \<rparr> \<and> sp = \<lparr> x_of = 300, y_of = 200 \<rparr>"
  then have old: "levelScale d (zoomIndex s) = 4"
    unfolding levelScale_def by (elim conjE) (simp only: power_int_numeral, simp)
  from a have new: "levelScale d (max (minZoomIndex s) (min newZoomIndex (numLevels d - 1))) = 2"
    unfolding levelScale_def by (elim conjE) (simp only: power_int_1_right)
  from a have ne: "newZoomIndex \<noteq> zoomIndex s" and p: "pan s = \<lparr> x_of = 100, y_of = 50 \<rparr>"
    and q: "sp = \<lparr> x_of = 300, y_of = 200 \<rparr>" by simp_all
  show "pan (handleZoom d s newZoomIndex sp) =
        clampPan \<lparr> x_of = 500, y_of = 300 \<rparr>
          \<lparr> width = width (originalDimensions d) / 2,
            height = height (originalDimensions d) / 2 \<rparr>
          (viewportSize s)"
    using ne by (simp add: handleZoom_def Let_def worldSizeAt_def old new p q)
qed

theorem handleZoom_pan_formula_witness:
  "pan (handleZoom \<lparr> originalDimensions = \<lparr> width = 4000, height = 3000 \<rparr>, numLevels = 6 \<rparr>
         \<lparr> zoomIndex = 3, minZoomIndex = 0, pan = \<lparr> x_of = 100, y_of = 50 \<rparr>,
           viewportSize = \<lparr> width = 600, height = 400 \<rparr> \<rparr>
         4 \<lparr> x_of = 300, y_of = 200 \<rparr>)
   = clampPan \<lparr> x_of = 500, y_of = 300 \<rparr> \<lparr> width = 2000, height = 1500 \<rparr>
       \<lparr> width = 600, height = 400 \<rparr>"
  using handleZoom_pan_formula
    [of 4 "\<lparr> zoomIndex = 3, minZoomIndex = 0, pan = \<lparr> x_of = 100, y_of = 50 \<rparr>,
           viewportSize = \<lparr> width = 600, height = 400 \<rparr> \<rparr>"
        "\<lparr> originalDimensions = \<lparr> width = 4000, height = 3000 \<rparr>, numLevels = 6 \<rparr>"
        "\<lparr> x_of = 300, y_of = 200 \<rparr>"]
  by simp

section \<open>The zoom index stays in range\<close>

lemma scanBase_range:
  "0 \<le> b \<Longrightarrow> b \<le> numLevels d - 1 \<Longrightarrow> 0 \<le> i \<Longrightarrow>
     0 \<le> scanBase d vs i b \<and> scanBase d vs i b \<le> numLevels d - 1"
proof (induction d vs i b rule: scanBase.induct)
  case (1 d vs i b)
  show ?case
  proof (cases "i < numLevels d \<and> \<not> (width (worldSizeAt d i) > width vs \<or> height (worldSizeAt d i) > height vs)")
    case True
    then have "scanBase d vs i b = scanBase d vs (i + 1) i"
      by (subst scanBase.simps) simp
    moreover have "0 \<le> scanBase d vs (i + 1) i \<and> scanBase d vs (i + 1) i \<le> numLevels d - 1"
      using True "1.prems" by (intro "1.IH") auto
    ultimately show ?thesis by simp
  next
    case False
    then have "scanBase d vs i b = b"
      by (subst scanBase.simps) auto
    with "1.prems" show ?thesis by simp
  qed
qed

lemma getInitialState_range:
  assumes "1 \<le> numLevels d" "getInitialState d vs = Some s"
  shows "zoomIndexInRange d s"
proof -
  have r: "0 \<le> scanBase d vs 0 0 \<and> scanBase d vs 0 0 \<le> numLevels d - 1"
    using assms(1) by (intro scanBase_range) auto
  from assms(2) have "zoomIndex s = scanBase d vs 0 0" "minZoomIndex s = scanBase d vs 0 0"
    by (auto simp: getInitialState_def Let_def split: if_splits)
  with r show ?thesis by (simp add: zoomIndexInRange_def)
qed

lemma handleZoom_range:
  "zoomIndexInRange d s \<Longrightarrow> zoomIndexInRange d (handleZoom d s t sp)"
  by (auto simp: zoomIndexInRange_def handleZoom_def Let_def)

lemma handlePan_range:
  "zoomIndexInRange d s \<Longrightarrow> zoomIndexInRange d (handlePan d s dir)"
  by (simp add: zoomIndexInRange_def handlePan_def Let_def)

text \<open>
  Claim C7, as amended. For a pyramid with at least one level, initialization yields a state with
  \<open>minZoomIndex \<le> zoomIndex \<le> numLevels - 1\<close>, and \<open>handleZoom\<close> with any integer target and
  \<open>handlePan\<close> with any direction preserve it; \<open>handleZoom\<close> commits its target clamped into
  \<open>[minZoomIndex, numLevels - 1]\<close> and leaves \<open>minZoomIndex\<close> alone.
\<close>

theorem zoomIndex_invariant:
  "(1 \<le> numLevels d \<and> getInitialState d vs = Some s0 \<longrightarrow> zoomIndexInRange d s0) \<and>
   (zoomIndexInRange d s \<longrightarrow>
      zoomIndexInRange d (handleZoom d s target sp) \<and>
      (target \<noteq> zoomIndex s \<longrightarrow>
         zoomIndex (handleZoom d s target sp) = max (minZoomIndex s) (min target (numLevels d - 1))) \<and>
      minZoomIndex (handleZoom d s target sp) = minZoomIndex s) \<and>
   (zoomIndexInRange d s \<longrightarrow> zoomIndexInRange d (handlePan d s dir))"
  using getInitialState_range handleZoom_range handlePan_range
  by (auto simp: handleZoom_def Let_def)

theorem zoomIndex_invariant_witness:
  "1 \<le> numLevels \<lparr> originalDimensions = \<lparr> width = 1000, height = 1000 \<rparr>, numLevels = 4 \<rparr> \<and>
   getInitialState \<lparr> originalDimensions = \<lparr> width = 1000, height = 1000 \<rparr>, numLevels = 4 \<rparr>
                   \<lparr> width = 400, height = 400 \<rparr>
     = Some \<lparr> zoomIndex = 1, minZoomIndex = 1, pan = \<lparr> x_of = -75, y_of = -75 \<rparr>,
              viewportSize = \<lparr> width = 400, height = 400 \<rparr> \<rparr> \<and>
   zoomIndexInRange \<lparr> originalDimensions = \<lparr> width = 1000, height = 1000 \<rparr>, numLevels = 4 \<rparr>
     (handleZoom \<lparr> originalDimensions = \<lparr> width = 1000, height = 1000 \<rparr>, numLevels = 4 \<rparr>
        \<lparr> zoomIndex = 1, minZoomIndex = 1, pan = \<lparr> x_of = -75, y_of = -75 \<rparr>,
          viewportSize = \<lparr> width = 400, height = 400 \<rparr> \<rparr> 7 \<lparr> x_of = 200, y_of = 200 \<rparr>) \<and>
   zoomIndex
     (handleZoom \<lparr> originalDimensions = \<lparr> width = 1000, height = 1000 \<rparr>, numLevels = 4 \<rparr>
        \<lparr> zoomIndex = 1, minZoomIndex = 1, pan = \<lparr> x_of = -75, y_of = -75 \<rparr>,
          viewportSize = \<lparr> width = 400, height = 400 \<rparr> \<rparr> 7 \<lparr> x_of = 200, y_of = 200 \<rparr>) = 3 \<and>
   zoomIndexInRange \<lparr> originalDimensions = \<lparr> width = 1000, height = 1000 \<rparr>, numLevels = 4 \<rparr>
     (handlePan \<lparr> originalDimensions = \<lparr> width = 1000, height = 1000 \<rparr>, numLevels = 4 \<rparr>
        \<lparr> zoomIndex = 1, minZoomIndex = 1, pan = \<lparr> x_of = -75, y_of = -75 \<rparr>,
          viewportSize = \<lparr> width = 400, height = 400 \<rparr> \<rparr> Right)"
proof -
  let ?d = "\<lparr> originalDimensions = \<lparr> width = 1000, height = 1000 \<rparr>, numLevels = 4 \<rparr>"
  let ?v = "\<lparr> width = 400, height = 400 \<rparr>"
  let ?s = "\<lparr> zoomIndex = 1, minZoomIndex = 1, pan = \<lparr> x_of = -75, y_of = -75 \<rparr>, viewportSize = ?v \<rparr>"
  have sc: "scanBase ?d ?v 0 0 = 1"
    by (simp add: scanBase.simps worldSizeAt_def levelScale_def)
  have g: "getInitialState ?d ?v = Some ?s"
    by (simp add: getInitialState_def sc worldSizeAt_def levelScale_def clampPan_def clampAxis_def)
  have n: "1 \<le> numLevels ?d" by simp
  have r: "zoomIndexInRange ?d ?s" by (simp add: zoomIndexInRange_def)
  show ?thesis
    using zoomIndex_invariant [of ?d ?v ?s ?s 7 "\<lparr> x_of = 200, y_of = 200 \<rparr>" Right] n g r
    by simp
qed

section \<open>Repeating an operation\<close>













section \<open>The standalone export computes what the component computes\<close>

lemma sa_clampPan_eq: "sa_clampPan p w v = clampPan p w v"
  by (simp add: sa_clampPan_def clampPan_def clampAxis_def Let_def)

lemma sa_scanBase_eq: "sa_scanBase d vs i b = scanBase d vs i b"
proof (induction d vs i b rule: scanBase.induct)
  case (1 d vs i b)
  show ?case
  proof (cases "i < numLevels d \<and> \<not> (width (worldSizeAt d i) > width vs \<or> height (worldSizeAt d i) > height vs)")
    case True
    then have "sa_scanBase d vs i b = sa_scanBase d vs (i + 1) i"
      by (subst sa_scanBase.simps) (simp add: worldSizeAt_def levelScale_def)
    also have "\<dots> = scanBase d vs (i + 1) i"
      using True by (intro "1.IH") auto
    also have "\<dots> = scanBase d vs i b"
      using True by (subst (2) scanBase.simps) simp
    finally show ?thesis .
  next
    case False
    then have "sa_scanBase d vs i b = b"
      by (subst sa_scanBase.simps) (auto simp: worldSizeAt_def levelScale_def)
    moreover from False have "scanBase d vs i b = b"
      by (subst scanBase.simps) auto
    ultimately show ?thesis by simp
  qed
qed

lemma sa_getInitialState_eq: "sa_getInitialState d vs = getInitialState d vs"
  by (simp add: sa_getInitialState_def getInitialState_def Let_def sa_scanBase_eq sa_clampPan_eq
        worldSizeAt_def levelScale_def)

lemma sa_handleZoom_eq: "sa_handleZoom d s t sp = handleZoom d s t sp"
  by (simp add: sa_handleZoom_def handleZoom_def Let_def sa_clampPan_eq worldSizeAt_def levelScale_def)

lemma sa_handlePan_eq: "sa_handlePan d s dir = handlePan d s dir"
  by (simp add: sa_handlePan_def handlePan_def Let_def sa_clampPan_eq worldSizeAt_def levelScale_def
        panAmount_def)

lemma sa_visibleTileRange_eq: "sa_visibleTileRange s = visibleTileRange s"
  by (simp add: sa_visibleTileRange_def visibleTileRange_def Let_def TILE_SIZE_def)

text \<open>
  Claim C10. For equal image data, viewport size, state and arguments, the viewer script
  embedded in the standalone export and the interactive component compute the same
  clamped pan, the same initial state (\<open>zoomIndex\<close>, \<open>minZoomIndex\<close>, \<open>pan\<close>), the same
  state after \<open>handleZoom\<close> and after \<open>handlePan\<close>, and the same visible tile range.
\<close>

theorem standalone_viewer_agrees:
  "sa_clampPan newPan worldSize viewSize = clampPan newPan worldSize viewSize \<and>
   sa_getInitialState d vs = getInitialState d vs \<and>
   sa_handleZoom d s target sp = handleZoom d s target sp \<and>
   sa_handlePan d s dir = handlePan d s dir \<and>
   sa_visibleTileRange s = visibleTileRange s"
  by (simp add: sa_clampPan_eq sa_getInitialState_eq sa_handleZoom_eq sa_handlePan_eq
        sa_visibleTileRange_eq)

section \<open>The number of levels\<close>

lemma ceiling_log2_eq:
  assumes "0 < x"
  shows "\<lceil>log 2 x\<rceil> = k \<longleftrightarrow> 2 powi (k - 1) < x \<and> x \<le> 2 powi k"
proof -
  have a: "real_of_int k - 1 < log 2 x \<longleftrightarrow> 2 powr (real_of_int k - 1) < x"
    using assms by (simp add: less_log_iff)
  have b: "log 2 x \<le> real_of_int k \<longleftrightarrow> x \<le> 2 powr real_of_int k"
    using assms by (simp add: log_le_iff)
  have c: "2 powr (real_of_int k - 1) = 2 powi (k - 1)"
    using powr_real_of_int' [of 2 "k - 1"] by simp
  have d: "2 powr real_of_int k = 2 powi k"
    using powr_real_of_int' [of 2 k] by simp
  show ?thesis
    unfolding ceiling_eq_iff a b c d ..
qed

lemma worker_numLevels_eq:
  assumes "1 \<le> max w h"
  shows "worker_numLevels w h = k \<longleftrightarrow>
           128 * 2 powi (k - 2) < real_of_int (max w h) \<and> real_of_int (max w h) \<le> 128 * 2 powi (k - 1)"
proof -
  have pos: "0 < real_of_int (max w h) / 128" using assms by simp
  have "worker_numLevels w h = k \<longleftrightarrow> \<lceil>log 2 (real_of_int (max w h) / 128)\<rceil> = k - 1"
    by (auto simp: worker_numLevels_def TILE_SIZE_def Let_def)
  also have "\<dots> \<longleftrightarrow> 2 powi (k - 1 - 1) < real_of_int (max w h) / 128 \<and> real_of_int (max w h) / 128 \<le> 2 powi (k - 1)"
    by (rule ceiling_log2_eq [OF pos])
  also have "\<dots> \<longleftrightarrow> 128 * 2 powi (k - 2) < real_of_int (max w h) \<and> real_of_int (max w h) \<le> 128 * 2 powi (k - 1)"
    by (simp add: field_simps)
  finally show ?thesis .
qed

lemma py_num_levels_eq: "1 \<le> max w h \<Longrightarrow> py_num_levels w h = worker_numLevels w h"
  by (simp add: py_num_levels_def worker_numLevels_def Let_def)

lemma worker_numLevels_positive:
  assumes "1 \<le> max w h"
  shows "1 \<le> worker_numLevels w h \<longleftrightarrow> 64 < max w h"
proof -
  have pos: "0 < real_of_int (max w h) / 128" using assms by simp
  have "1 \<le> worker_numLevels w h \<longleftrightarrow> 0 \<le> \<lceil>log 2 (real_of_int (max w h) / 128)\<rceil>"
    by (auto simp: worker_numLevels_def TILE_SIZE_def Let_def)
  also have "\<dots> \<longleftrightarrow> -1 < log 2 (real_of_int (max w h) / 128)"
    by (simp add: le_ceiling_iff)
  also have "\<dots> \<longleftrightarrow> 2 powr (-1) < real_of_int (max w h) / 128"
    using pos by (simp add: less_log_iff)
  also have "\<dots> \<longleftrightarrow> 64 < max w h"
    by (simp add: powr_minus field_simps)
  finally show ?thesis .
qed

text \<open>
  Claim C3. The claim asks for \<open>numLevels = ceil(log2(max(w,h)/TILE_SIZE)) + 1\<close> and for
  \<open>numLevels \<ge> 1\<close> on every image with \<open>w, h \<ge> 1\<close>. Both builders compute the formula
  without a lower bound: a 64 by 64 image gets 0 levels and a 1 by 1 image gets -6, and
  the worker then posts a pyramid without any tile.
\<close>

theorem numLevels_small_image:
  "worker_numLevels 64 64 = 0 \<and> py_num_levels 64 64 = 0 \<and>
   worker_numLevels 1 1 = - 6 \<and> py_num_levels 1 1 = - 6 \<and>
   worker (Some (64, 64)) hostSucceeds =
     [Posted (Done \<lparr> built_tiles = [], built_width = 64, built_height = 64,
                     built_numLevels = 0 \<rparr>)]"
proof -
  have a: "worker_numLevels 64 64 = 0" by (simp add: worker_numLevels_eq)
  have b: "worker_numLevels 1 1 = - 6" by (simp add: worker_numLevels_eq)
  show ?thesis
    by (simp add: a b py_num_levels_eq worker_def)
qed

section \<open>Tiles of one level\<close>

lemma set_levelTiles:
  "set (levelTiles level lw lh) =
     {makeTile level lw lh y x | y x. 0 \<le> y \<and> y < gridRows lh \<and> 0 \<le> x \<and> x < gridCols lw}"
  by (auto simp: levelTiles_def) blast

lemma set_py_levelTiles:
  "set (py_levelTiles level lw lh) =
     {py_makeTile level lw lh y x | y x. 0 \<le> y \<and> y < gridRows lh \<and> 0 \<le> x \<and> x < gridCols lw}"
  by (auto simp: py_levelTiles_def gridRows_def gridCols_def Let_def) blast

lemma py_makeTile_eq: "py_makeTile level lw lh y x = makeTile level lw lh y x"
  by (simp add: py_makeTile_def makeTile_def Let_def)

lemma in_grid_extent:
  "x < gridCols lw \<Longrightarrow> x * TILE_SIZE < lw"
proof -
  assume "x < gridCols lw"
  then have "real_of_int x < real_of_int lw / 128"
    by (simp add: gridCols_def TILE_SIZE_def less_ceiling_iff)
  then have "real_of_int x * 128 < real_of_int lw" by (simp add: field_simps)
  then have "real_of_int (x * 128) < real_of_int lw" by simp
  then show ?thesis unfolding TILE_SIZE_def by linarith
qed

lemma in_grid_extent_rows:
  "y < gridRows lh \<Longrightarrow> y * TILE_SIZE < lh"
  using in_grid_extent [of y lh] by (simp add: gridRows_def gridCols_def)

lemma makeTile_props:
  assumes "0 \<le> y" "y < gridRows lh" "0 \<le> x" "x < gridCols lw"
    and t_def: "t = makeTile level lw lh y x"
  shows "canvasWidth t = TILE_SIZE \<and> canvasHeight t = TILE_SIZE \<and>
     tile_level t = level \<and> tile_row t = y \<and> tile_col t = x \<and>
     src_x t = x * TILE_SIZE \<and> src_y t = y * TILE_SIZE \<and>
     src_w t = min TILE_SIZE (lw - x * TILE_SIZE) \<and>
     src_h t = min TILE_SIZE (lh - y * TILE_SIZE) \<and>
     1 \<le> src_w t \<and> src_w t \<le> TILE_SIZE \<and> 1 \<le> src_h t \<and> src_h t \<le> TILE_SIZE \<and>
     dst_x t = 0 \<and> dst_y t = 0 \<and> dst_w t = src_w t \<and> dst_h t = src_h t"
  using in_grid_extent [OF assms(4)] in_grid_extent_rows [OF assms(2)]
  by (simp add: t_def makeTile_def Let_def) (simp add: TILE_SIZE_def)

section \<open>The level loop\<close>

lemma levelLoop_Suc:
  "levelLoop host n (Suc l) w h =
     (if host (int l) = ThrowsWhileTiling
      then ([Posted (Progress (progressMessage (int l) n))], False)
      else if host (int l) = ThrowsWhileDownsampling \<and> 0 < l
      then ([Posted (Progress (progressMessage (int l) n)),
             LevelTiled (int l) w h (levelTiles (int l) w h)], False)
      else (Posted (Progress (progressMessage (int l) n))
              # LevelTiled (int l) w h (levelTiles (int l) w h)
              # fst (levelLoop host n l (if 0 < l then w div 2 else w) (if 0 < l then h div 2 else h)),
            snd (levelLoop host n l (if 0 < l then w div 2 else w) (if 0 < l then h div 2 else h))))"
  by (simp add: levelLoop.simps Let_def case_prod_beta)

lemma levelLoop_tiled:
  "LevelTiled i lw lh ts \<in> set (fst (levelLoop host n k w h)) \<Longrightarrow>
     0 \<le> i \<and> i < int k \<and> lw = w div 2 ^ (k - 1 - nat i) \<and> lh = h div 2 ^ (k - 1 - nat i) \<and>
     ts = levelTiles i lw lh"
proof (induction k arbitrary: w h)
  case 0
  then show ?case by simp
next
  case (Suc l)
  let ?w = "if 0 < l then w div 2 else w"
  let ?h = "if 0 < l then h div 2 else h"
  from Suc.prems
  consider (here) "i = int l" "lw = w" "lh = h" "ts = levelTiles (int l) w h"
    | (later) "LevelTiled i lw lh ts \<in> set (fst (levelLoop host n l ?w ?h))"
    by (auto simp: levelLoop_Suc split: if_splits)
  then show ?case
  proof cases
    case here
    then show ?thesis by simp
  next
    case later
    note ih = Suc.IH [OF later]
    then have il: "0 \<le> i" "i < int l" by simp_all
    then have lpos: "0 < l" by simp
    have e: "Suc l - 1 - nat i = Suc (l - 1 - nat i)" using il by linarith
    have "(w div 2) div 2 ^ (l - 1 - nat i) = w div 2 ^ (Suc l - 1 - nat i)"
      unfolding e by (simp add: zdiv_zmult2_eq)
    moreover have "(h div 2) div 2 ^ (l - 1 - nat i) = h div 2 ^ (Suc l - 1 - nat i)"
      unfolding e by (simp add: zdiv_zmult2_eq)
    ultimately show ?thesis using ih lpos by simp
  qed
qed

lemma builtLevelSize_append_posted:
  "builtLevelSize (evs @ [Posted m]) i = builtLevelSize evs i"
  by (induction evs i rule: builtLevelSize.induct) simp_all

lemma levelLoop_finished_Suc:
  assumes "snd (levelLoop host n (Suc l) w h)"
  shows "snd (levelLoop host n l (if 0 < l then w div 2 else w) (if 0 < l then h div 2 else h)) \<and>
         fst (levelLoop host n (Suc l) w h)
           = Posted (Progress (progressMessage (int l) n))
             # LevelTiled (int l) w h (levelTiles (int l) w h)
             # fst (levelLoop host n l (if 0 < l then w div 2 else w) (if 0 < l then h div 2 else h))"
  using assms by (auto simp: levelLoop_Suc split: if_splits)

lemma levelLoop_builtLevelSize:
  "snd (levelLoop host n k w h) \<Longrightarrow> i < k \<Longrightarrow>
     builtLevelSize (fst (levelLoop host n k w h)) (int i)
       = Some (w div 2 ^ (k - 1 - i), h div 2 ^ (k - 1 - i))"
proof (induction k arbitrary: w h)
  case 0
  then show ?case by simp
next
  case (Suc l)
  let ?w = "if 0 < l then w div 2 else w"
  let ?h = "if 0 < l then h div 2 else h"
  note fs = levelLoop_finished_Suc [OF Suc.prems(1)]
  show ?case
  proof (cases "i = l")
    case True
    then show ?thesis by (simp add: fs)
  next
    case False
    with Suc.prems(2) have il: "i < l" by simp
    then have e: "Suc l - 1 - i = Suc (l - 1 - i)" by linarith
    have "builtLevelSize (fst (levelLoop host n (Suc l) w h)) (int i)
            = builtLevelSize (fst (levelLoop host n l ?w ?h)) (int i)"
      using False by (simp add: fs)
    also have "\<dots> = Some (?w div 2 ^ (l - 1 - i), ?h div 2 ^ (l - 1 - i))"
      using fs by (intro Suc.IH il) simp
    also have "\<dots> = Some (w div 2 ^ (Suc l - 1 - i), h div 2 ^ (Suc l - 1 - i))"
      using il unfolding e by (simp add: zdiv_zmult2_eq)
    finally show ?thesis .
  qed
qed


lemma donePayload_levelLoop:
  "donePayload (fst (levelLoop host n k w h) @ evs) = donePayload evs"
  by (induction k arbitrary: w h) (auto simp: levelLoop_Suc)

lemma worker_Some:
  "worker (Some (w, h)) host =
     fst (levelLoop host (worker_numLevels w h) (nat (worker_numLevels w h)) w h)
     @ [Posted (if snd (levelLoop host (worker_numLevels w h) (nat (worker_numLevels w h)) w h)
                then Done \<lparr> built_tiles = allTiles (fst (levelLoop host (worker_numLevels w h) (nat (worker_numLevels w h)) w h)),
                            built_width = w, built_height = h,
                            built_numLevels = worker_numLevels w h \<rparr>
                else Error tooLargeMessage)]"
  by (simp add: worker_def Let_def case_prod_beta)

lemma worker_done:
  assumes "donePayload (worker (Some (w, h)) host) = Some p"
  shows "snd (levelLoop host (worker_numLevels w h) (nat (worker_numLevels w h)) w h) \<and>
         built_width p = w \<and> built_height p = h \<and> built_numLevels p = worker_numLevels w h \<and>
         worker (Some (w, h)) host
           = fst (levelLoop host (worker_numLevels w h) (nat (worker_numLevels w h)) w h)
             @ [Posted (Done p)]"
  using assms
  by (auto simp: worker_Some donePayload_levelLoop split: if_splits)


section \<open>Level sizes: pyramid against viewer\<close>

lemma pow2_world:
  "0 \<le> k \<Longrightarrow> real_of_int w / 2 powi k = real_of_int w / real_of_int (2 ^ nat k)"
  by (simp add: power_int_def)

lemma floor_div_pow2: "\<lfloor>real_of_int w / real_of_int (2 ^ k)\<rfloor> = w div 2 ^ k"
  by (rule floor_divide_of_int_eq)

lemma exact_div_pow2:
  "real_of_int w / real_of_int (2 ^ k) = real_of_int (w div 2 ^ k) \<longleftrightarrow> (2::int) ^ k dvd w"
proof
  assume "real_of_int w / real_of_int (2 ^ k) = real_of_int (w div 2 ^ k)"
  then have "real_of_int w = real_of_int (w div 2 ^ k) * real_of_int (2 ^ k)"
    by (simp add: field_simps)
  then have "real_of_int w = real_of_int ((w div 2 ^ k) * 2 ^ k)" by simp
  then have "w = (w div 2 ^ k) * 2 ^ k" by (simp only: of_int_eq_iff)
  then show "(2::int) ^ k dvd w" by (metis dvd_triv_right)
next
  assume "(2::int) ^ k dvd w"
  then obtain q where "w = 2 ^ k * q" by (auto elim: dvdE)
  then show "real_of_int w / real_of_int (2 ^ k) = real_of_int (w div 2 ^ k)" by simp
qed

text \<open>
  Claim C4, as amended. For a pyramid the worker has built from a \<open>w \<times> h\<close> image and every
  level \<open>i\<close> with \<open>0 \<le> i < numLevels\<close>, the world size the viewer uses (in the
  initialization scan and in the sizes \<open>handleZoom\<close> and \<open>handlePan\<close> pass to \<open>clampPan\<close>)
  is the original size divided directly by \<open>2^(numLevels-1-i)\<close>, not rounded. The
  pyramid's level size, obtained by repeated floor halving from the next finer level, is
  the integer floor of it; the two agree on an axis exactly when \<open>2^(numLevels-1-i)\<close>
  divides the original dimension.
\<close>

theorem viewer_level_size_unrounded:
  "donePayload (worker (Some (w, h)) host) = Some p \<and> 0 \<le> i \<and> i < built_numLevels p \<longrightarrow>
     (let d = toImageData p; k = nat (built_numLevels p - 1 - i) in
        worldSizeAt d i = \<lparr> width = real_of_int w / 2 ^ k, height = real_of_int h / 2 ^ k \<rparr> \<and>
        builtLevelSize (worker (Some (w, h)) host) i = Some (w div 2 ^ k, h div 2 ^ k) \<and>
        builtLevelSize (worker (Some (w, h)) host) (built_numLevels p - 1) = Some (w, h) \<and>
        (0 < k \<longrightarrow> builtLevelSize (worker (Some (w, h)) host) i
                     = Some ((w div 2 ^ (k - 1)) div 2, (h div 2 ^ (k - 1)) div 2) \<and>
                   builtLevelSize (worker (Some (w, h)) host) (i + 1)
                     = Some (w div 2 ^ (k - 1), h div 2 ^ (k - 1))) \<and>
        w div 2 ^ k = \<lfloor>width (worldSizeAt d i)\<rfloor> \<and>
        h div 2 ^ k = \<lfloor>height (worldSizeAt d i)\<rfloor> \<and>
        (width (worldSizeAt d i) = real_of_int (w div 2 ^ k) \<longleftrightarrow> 2 ^ k dvd w) \<and>
        (height (worldSizeAt d i) = real_of_int (h div 2 ^ k) \<longleftrightarrow> 2 ^ k dvd h))"
proof (intro impI)
  assume a: "donePayload (worker (Some (w, h)) host) = Some p \<and> 0 \<le> i \<and> i < built_numLevels p"
  define N where "N = worker_numLevels w h"
  define k where "k = nat (N - 1 - i)"
  note wd = worker_done [of w h host p]
  from a wd have fin: "snd (levelLoop host N (nat N) w h)"
    and pw: "built_width p = w" and ph: "built_height p = h" and pn: "built_numLevels p = N"
    and tr: "worker (Some (w, h)) host = fst (levelLoop host N (nat N) w h) @ [Posted (Done p)]"
    by (simp_all add: N_def)
  from a have i0: "0 \<le> i" and iN: "i < N" by (simp_all add: pn)
  have size_at: "builtLevelSize (worker (Some (w, h)) host) (int j)
                   = Some (w div 2 ^ (nat N - 1 - j), h div 2 ^ (nat N - 1 - j))"
    if "j < nat N" for j
    unfolding tr builtLevelSize_append_posted
    by (rule levelLoop_builtLevelSize [OF fin that])
  have ki: "nat N - 1 - nat i = k" using i0 iN by (simp add: k_def)
  have s_i: "builtLevelSize (worker (Some (w, h)) host) i = Some (w div 2 ^ k, h div 2 ^ k)"
    using size_at [of "nat i"] i0 iN ki by simp
  have s_top: "builtLevelSize (worker (Some (w, h)) host) (N - 1) = Some (w, h)"
    using size_at [of "nat N - 1"] i0 iN by (simp add: of_nat_diff)
  have s_next: "builtLevelSize (worker (Some (w, h)) host) (i + 1)
                  = Some (w div 2 ^ (k - 1), h div 2 ^ (k - 1))" if "0 < k"
  proof -
    from that have "nat (i + 1) < nat N" using i0 iN by (simp add: k_def)
    moreover have "nat N - 1 - nat (i + 1) = k - 1" using i0 iN by (simp add: k_def)
    moreover have "int (nat (i + 1)) = i + 1" using i0 by simp
    ultimately show ?thesis using size_at [of "nat (i + 1)"] by simp
  qed
  have halve: "(w div 2 ^ (k - 1)) div 2 = w div 2 ^ k \<and> (h div 2 ^ (k - 1)) div 2 = h div 2 ^ k"
    if "0 < k"
  proof -
    from that obtain m where m: "k = Suc m" by (cases k) auto
    have "(a div 2 ^ m) div 2 = a div 2 ^ Suc m" for a :: int
    proof -
      have "(a div 2 ^ m) div 2 = a div (2 ^ m * 2)"
        by (rule zdiv_zmult2_eq [symmetric]) simp
      then show ?thesis by (simp add: mult.commute)
    qed
    then show ?thesis by (simp add: m)
  qed
  have k0: "0 \<le> N - 1 - i" using iN by simp
  have ws: "worldSizeAt (toImageData p) i
              = \<lparr> width = real_of_int w / real_of_int (2 ^ k), height = real_of_int h / real_of_int (2 ^ k) \<rparr>"
    using pow2_world [OF k0]
    by (simp add: worldSizeAt_def levelScale_def toImageData_def pw ph pn k_def)
  show "let d = toImageData p; k = nat (built_numLevels p - 1 - i) in
        worldSizeAt d i = \<lparr> width = real_of_int w / 2 ^ k, height = real_of_int h / 2 ^ k \<rparr> \<and>
        builtLevelSize (worker (Some (w, h)) host) i = Some (w div 2 ^ k, h div 2 ^ k) \<and>
        builtLevelSize (worker (Some (w, h)) host) (built_numLevels p - 1) = Some (w, h) \<and>
        (0 < k \<longrightarrow> builtLevelSize (worker (Some (w, h)) host) i
                     = Some ((w div 2 ^ (k - 1)) div 2, (h div 2 ^ (k - 1)) div 2) \<and>
                   builtLevelSize (worker (Some (w, h)) host) (i + 1)
                     = Some (w div 2 ^ (k - 1), h div 2 ^ (k - 1))) \<and>
        w div 2 ^ k = \<lfloor>width (worldSizeAt d i)\<rfloor> \<and>
        h div 2 ^ k = \<lfloor>height (worldSizeAt d i)\<rfloor> \<and>
        (width (worldSizeAt d i) = real_of_int (w div 2 ^ k) \<longleftrightarrow> 2 ^ k dvd w) \<and>
        (height (worldSizeAt d i) = real_of_int (h div 2 ^ k) \<longleftrightarrow> 2 ^ k dvd h)"
    unfolding Let_def pn k_def [symmetric] ws
    using s_i s_top s_next halve floor_div_pow2 [of w k] floor_div_pow2 [of h k]
      exact_div_pow2 [of w k] exact_div_pow2 [of h k]
    by simp
qed


lemma n1001: "worker_numLevels 1001 1001 = 4"
  by (simp add: worker_numLevels_eq)

lemma worker_1001:
  "worker (Some (1001, 1001)) hostSucceeds =
     [Posted (Progress (progressMessage 3 4)), LevelTiled 3 1001 1001 (levelTiles 3 1001 1001),
      Posted (Progress (progressMessage 2 4)), LevelTiled 2 500 500 (levelTiles 2 500 500),
      Posted (Progress (progressMessage 1 4)), LevelTiled 1 250 250 (levelTiles 1 250 250),
      Posted (Progress (progressMessage 0 4)), LevelTiled 0 125 125 (levelTiles 0 125 125),
      Posted (Done \<lparr> built_tiles = levelTiles 3 1001 1001 @ levelTiles 2 500 500
                                     @ levelTiles 1 250 250 @ levelTiles 0 125 125,
                     built_width = 1001, built_height = 1001, built_numLevels = 4 \<rparr>)]"
  by (simp add: worker_Some n1001 eval_nat_numeral levelLoop_Suc hostSucceeds_def)

theorem viewer_level_size_unrounded_witness:
  "donePayload (worker (Some (1001, 1001)) hostSucceeds)
     = Some \<lparr> built_tiles = levelTiles 3 1001 1001 @ levelTiles 2 500 500
                             @ levelTiles 1 250 250 @ levelTiles 0 125 125,
              built_width = 1001, built_height = 1001, built_numLevels = 4 \<rparr> \<and>
   builtLevelSize (worker (Some (1001, 1001)) hostSucceeds) 2 = Some (500, 500) \<and>
   worldSizeAt (toImageData \<lparr> built_tiles = levelTiles 3 1001 1001 @ levelTiles 2 500 500
                             @ levelTiles 1 250 250 @ levelTiles 0 125 125,
              built_width = 1001, built_height = 1001, built_numLevels = 4 \<rparr>) 2
     = \<lparr> width = 1001 / 2, height = 1001 / 2 \<rparr>"
proof -
  let ?p = "\<lparr> built_tiles = levelTiles 3 1001 1001 @ levelTiles 2 500 500
                             @ levelTiles 1 250 250 @ levelTiles 0 125 125,
              built_width = 1001, built_height = 1001, built_numLevels = 4 \<rparr>"
  have d: "donePayload (worker (Some (1001, 1001)) hostSucceeds) = Some ?p"
    by (simp add: worker_1001)
  show ?thesis
    using viewer_level_size_unrounded [of 1001 1001 hostSucceeds ?p 2] d
    by (simp add: Let_def)
qed

text \<open>
  The claim as first stated fails on a 1001 by 1001 image (4 levels): level 2 of the
  pyramid is 500 by 500, while the viewer works with 500.5 by 500.5. In a 500 by 500
  viewport the initialization scan therefore stops at level 1, and in a 400 by 400
  viewport panning right at level 2 stops at \<open>x = 100.5\<close>.
\<close>

theorem viewer_level_size_counterexample:
  "map_option toImageData (donePayload (worker (Some (1001, 1001)) hostSucceeds))
     = Some \<lparr> originalDimensions = \<lparr> width = 1001, height = 1001 \<rparr>, numLevels = 4 \<rparr> \<and>
   builtLevelSize (worker (Some (1001, 1001)) hostSucceeds) 2 = Some (500, 500) \<and>
   worldSizeAt \<lparr> originalDimensions = \<lparr> width = 1001, height = 1001 \<rparr>, numLevels = 4 \<rparr> 2
     = \<lparr> width = 1001 / 2, height = 1001 / 2 \<rparr> \<and>
   map_option zoomIndex
     (getInitialState \<lparr> originalDimensions = \<lparr> width = 1001, height = 1001 \<rparr>, numLevels = 4 \<rparr>
        \<lparr> width = 500, height = 500 \<rparr>) = Some 1 \<and>
   pan (handlePan \<lparr> originalDimensions = \<lparr> width = 1001, height = 1001 \<rparr>, numLevels = 4 \<rparr>
          \<lparr> zoomIndex = 2, minZoomIndex = 1, pan = \<lparr> x_of = 100, y_of = 0 \<rparr>,
            viewportSize = \<lparr> width = 400, height = 400 \<rparr> \<rparr> Right)
     = \<lparr> x_of = 201 / 2, y_of = 0 \<rparr>"
proof -
  let ?d = "\<lparr> originalDimensions = \<lparr> width = 1001, height = 1001 \<rparr>, numLevels = 4 \<rparr>"
  have sc: "scanBase ?d \<lparr> width = 500, height = 500 \<rparr> 0 0 = 1"
    by (simp add: scanBase.simps worldSizeAt_def levelScale_def)
  show ?thesis
    by (simp add: worker_1001 toImageData_def worldSizeAt_def levelScale_def getInitialState_def sc
          handlePan_def Let_def clampPan_def clampAxis_def panAmount_def)
qed

section \<open>Every tile is \<open>TILE_SIZE\<close> by \<open>TILE_SIZE\<close>\<close>

text \<open>
  Claim C5. The tiles stored for a level are the tiles of that level's grid
  (\<open>cols = ceil(levelWidth/TILE_SIZE)\<close>, \<open>rows = ceil(levelHeight/TILE_SIZE)\<close>), one for
  every \<open>(row, col)\<close> of the grid, in the worker and in the Python script alike. Each has a
  \<open>TILE_SIZE \<times> TILE_SIZE\<close> canvas, and the source rectangle starts at
  \<open>(col*TILE_SIZE, row*TILE_SIZE)\<close> with extent
  \<open>min(TILE_SIZE, levelWidth - col*TILE_SIZE)\<close> by \<open>min(TILE_SIZE, levelHeight - row*TILE_SIZE)\<close>,
  between 1 and \<open>TILE_SIZE\<close>, drawn unscaled at offset \<open>(0, 0)\<close>.
\<close>

theorem tiles_fixed_size:
  "(LevelTiled level lw lh ts \<in> set (worker decoded host) \<longrightarrow> ts = levelTiles level lw lh) \<and>
   (0 \<le> row \<and> row < gridRows lh \<and> 0 \<le> col \<and> col < gridCols lw \<longrightarrow>
      makeTile level lw lh row col \<in> set (levelTiles level lw lh) \<and>
      py_makeTile level lw lh row col \<in> set (py_levelTiles level lw lh)) \<and>
   (t \<in> set (levelTiles level lw lh) \<union> set (py_levelTiles level lw lh) \<longrightarrow>
      canvasWidth t = TILE_SIZE \<and> canvasHeight t = TILE_SIZE \<and>
      tile_level t = level \<and>
      0 \<le> tile_row t \<and> tile_row t < gridRows lh \<and>
      0 \<le> tile_col t \<and> tile_col t < gridCols lw \<and>
      t = makeTile level lw lh (tile_row t) (tile_col t) \<and>
      src_x t = tile_col t * TILE_SIZE \<and> src_y t = tile_row t * TILE_SIZE \<and>
      src_w t = min TILE_SIZE (lw - tile_col t * TILE_SIZE) \<and>
      src_h t = min TILE_SIZE (lh - tile_row t * TILE_SIZE) \<and>
      1 \<le> src_w t \<and> src_w t \<le> TILE_SIZE \<and> 1 \<le> src_h t \<and> src_h t \<le> TILE_SIZE \<and>
      dst_x t = 0 \<and> dst_y t = 0 \<and> dst_w t = src_w t \<and> dst_h t = src_h t)"
proof (intro conjI impI)
  assume "LevelTiled level lw lh ts \<in> set (worker decoded host)"
  then show "ts = levelTiles level lw lh"
  proof (cases decoded)
    case None
    with \<open>LevelTiled level lw lh ts \<in> set (worker decoded host)\<close> show ?thesis
      by (simp add: worker_def)
  next
    case (Some wh)
    obtain w h where wh: "wh = (w, h)" by (cases wh)
    from \<open>LevelTiled level lw lh ts \<in> set (worker decoded host)\<close>
    have "LevelTiled level lw lh ts
            \<in> set (fst (levelLoop host (worker_numLevels w h) (nat (worker_numLevels w h)) w h))"
      by (simp add: Some wh worker_Some)
    from levelLoop_tiled [OF this] show ?thesis by simp
  qed
next
  assume "0 \<le> row \<and> row < gridRows lh \<and> 0 \<le> col \<and> col < gridCols lw"
  then show "makeTile level lw lh row col \<in> set (levelTiles level lw lh)"
    and "py_makeTile level lw lh row col \<in> set (py_levelTiles level lw lh)"
    unfolding set_levelTiles set_py_levelTiles by blast+
next
  assume "t \<in> set (levelTiles level lw lh) \<union> set (py_levelTiles level lw lh)"
  then obtain y x where r: "0 \<le> y" "y < gridRows lh" "0 \<le> x" "x < gridCols lw"
    and t: "t = makeTile level lw lh y x"
    unfolding set_levelTiles set_py_levelTiles py_makeTile_eq by blast
  note p = makeTile_props [OF r t]
  then have rc: "tile_row t = y" "tile_col t = x" by simp_all
  show "t = makeTile level lw lh (tile_row t) (tile_col t)"
    unfolding rc by (rule t)
  from p r
  show "canvasWidth t = TILE_SIZE" "canvasHeight t = TILE_SIZE" "tile_level t = level"
    "0 \<le> tile_row t" "tile_row t < gridRows lh" "0 \<le> tile_col t" "tile_col t < gridCols lw"
    "src_x t = tile_col t * TILE_SIZE" "src_y t = tile_row t * TILE_SIZE"
    "src_w t = min TILE_SIZE (lw - tile_col t * TILE_SIZE)"
    "src_h t = min TILE_SIZE (lh - tile_row t * TILE_SIZE)"
    "1 \<le> src_w t" "src_w t \<le> TILE_SIZE" "1 \<le> src_h t" "src_h t \<le> TILE_SIZE"
    "dst_x t = 0" "dst_y t = 0" "dst_w t = src_w t" "dst_h t = src_h t"
    by blast+
qed

theorem tiles_fixed_size_witness:
  "LevelTiled 1 200 100 (levelTiles 1 200 100) \<in> set (worker (Some (200, 100)) hostSucceeds) \<and>
   (0::int) \<le> 0 \<and> 0 < gridRows 100 \<and> (0::int) \<le> 1 \<and> 1 < gridCols 200 \<and>
   makeTile 1 200 100 0 1 \<in> set (levelTiles 1 200 100) \<and>
   py_makeTile 1 200 100 0 1 \<in> set (py_levelTiles 1 200 100) \<and>
   canvasWidth (makeTile 1 200 100 0 1) = 128 \<and>
   canvasHeight (makeTile 1 200 100 0 1) = 128 \<and>
   src_x (makeTile 1 200 100 0 1) = 128 \<and> src_y (makeTile 1 200 100 0 1) = 0 \<and>
   src_w (makeTile 1 200 100 0 1) = 72 \<and> src_h (makeTile 1 200 100 0 1) = 100 \<and>
   dst_x (makeTile 1 200 100 0 1) = 0 \<and> dst_y (makeTile 1 200 100 0 1) = 0 \<and>
   dst_w (makeTile 1 200 100 0 1) = 72 \<and> dst_h (makeTile 1 200 100 0 1) = 100"
proof -
  have n: "worker_numLevels 200 100 = 2" by (simp add: worker_numLevels_eq)
  have m: "LevelTiled 1 200 100 (levelTiles 1 200 100) \<in> set (worker (Some (200, 100)) hostSucceeds)"
    by (simp add: worker_Some n eval_nat_numeral levelLoop_Suc hostSucceeds_def)
  have g: "(0::int) \<le> 0 \<and> 0 < gridRows 100 \<and> (0::int) \<le> 1 \<and> 1 < gridCols 200"
    by (simp add: gridRows_def gridCols_def TILE_SIZE_def)
  have rc: "tile_row (makeTile 1 200 100 0 1) = 0" "tile_col (makeTile 1 200 100 0 1) = 1"
    by (simp_all add: makeTile_def Let_def)
  from tiles_fixed_size [of 1 200 100 "levelTiles 1 200 100" "Some (200, 100)" hostSucceeds 0 1
         "makeTile 1 200 100 0 1"] g
  have mem: "makeTile 1 200 100 0 1 \<in> set (levelTiles 1 200 100)"
    and pmem: "py_makeTile 1 200 100 0 1 \<in> set (py_levelTiles 1 200 100)"
    by blast+
  from tiles_fixed_size [of 1 200 100 "levelTiles 1 200 100" "Some (200, 100)" hostSucceeds 0 1
         "makeTile 1 200 100 0 1"] mem
  have "canvasWidth (makeTile 1 200 100 0 1) = TILE_SIZE"
    "canvasHeight (makeTile 1 200 100 0 1) = TILE_SIZE"
    "src_x (makeTile 1 200 100 0 1) = tile_col (makeTile 1 200 100 0 1) * TILE_SIZE"
    "src_y (makeTile 1 200 100 0 1) = tile_row (makeTile 1 200 100 0 1) * TILE_SIZE"
    "src_w (makeTile 1 200 100 0 1) = min TILE_SIZE (200 - tile_col (makeTile 1 200 100 0 1) * TILE_SIZE)"
    "src_h (makeTile 1 200 100 0 1) = min TILE_SIZE (100 - tile_row (makeTile 1 200 100 0 1) * TILE_SIZE)"
    "dst_x (makeTile 1 200 100 0 1) = 0" "dst_y (makeTile 1 200 100 0 1) = 0"
    "dst_w (makeTile 1 200 100 0 1) = src_w (makeTile 1 200 100 0 1)"
    "dst_h (makeTile 1 200 100 0 1) = src_h (makeTile 1 200 100 0 1)"
    by blast+
  then show ?thesis
    using m g mem pmem by (simp add: rc TILE_SIZE_def)
qed

section \<open>The worker's event stream\<close>













section \<open>A malformed manifest stops the load\<close>

lemma handleZipFile_error:
  "tryLoad host file = ([], Some msg) \<Longrightarrow> handleZipFile host file = failedLoad msg"
  by (simp add: handleZipFile_def failedLoad_def)

lemma failedLoad_clean: "\<forall>e \<in> set (failedLoad msg). \<not> touchesTilesOrPublishes e"
  by (simp add: failedLoad_def)

lemma handleZipFile_publishes:
  assumes "zipFile content ''image_data.js'' = Some f"
    and "JSON_parse host (manifestJson host (entry_text f)) = Inr v"
    and "destructure host v = Inr (Some od, Some nl)"
    and "truthy (Some od)" "truthy (Some nl)"
  shows "\<exists>tiles. OnTilesGenerated \<lparr> loaded_tiles = tiles, loaded_originalDimensions = od,
                                     loaded_numLevels = nl \<rparr>
                  \<in> set (handleZipFile host (Inr content))"
  using assms by (auto simp: handleZipFile_def tryLoad_def Let_def)

text \<open>
  Claim C9. When the archive has no \<open>image_data.js\<close>, when \<open>JSON.parse\<close> rejects its
  text, or when the parsed value lacks \<open>originalDimensions\<close> or \<open>numLevels\<close> (or is
  \<open>null\<close>), \<open>handleZipFile\<close> does nothing but report the error: it logs it, alerts
  \<open>Failed to load tile set: <message>\<close> and resets the processing flags. No tile is read,
  no object URL is created, and neither \<open>setGeneratedData\<close> nor \<open>onTilesGenerated\<close> is
  called.
\<close>

theorem malformed_manifest_fails_fast:
  "(zipFile content ''image_data.js'' = None \<longrightarrow>
      handleZipFile host (Inr content) = failedLoad ''image_data.js not found in the ZIP file.'') \<and>
   (zipFile content ''image_data.js'' = Some f \<and>
    JSON_parse host (manifestJson host (entry_text f)) = Inl msg \<longrightarrow>
      handleZipFile host (Inr content) = failedLoad msg) \<and>
   (zipFile content ''image_data.js'' = Some f \<and>
    JSON_parse host (manifestJson host (entry_text f)) = Inr v \<and>
    destructure host v = Inl msg \<longrightarrow>
      handleZipFile host (Inr content) = failedLoad msg) \<and>
   (zipFile content ''image_data.js'' = Some f \<and>
    JSON_parse host (manifestJson host (entry_text f)) = Inr v \<and>
    destructure host v = Inr (od, nl) \<and> (od = None \<or> nl = None) \<longrightarrow>
      handleZipFile host (Inr content) = failedLoad ''Invalid image_data.js format.'') \<and>
   (\<forall>e \<in> set (failedLoad m). \<not> touchesTilesOrPublishes e)"
proof (intro conjI impI)
  assume "zipFile content ''image_data.js'' = None"
  then show "handleZipFile host (Inr content) = failedLoad ''image_data.js not found in the ZIP file.''"
    by (intro handleZipFile_error) (simp add: tryLoad_def)
next
  assume "zipFile content ''image_data.js'' = Some f \<and>
    JSON_parse host (manifestJson host (entry_text f)) = Inl msg"
  then show "handleZipFile host (Inr content) = failedLoad msg"
    by (intro handleZipFile_error) (simp add: tryLoad_def)
next
  assume "zipFile content ''image_data.js'' = Some f \<and>
    JSON_parse host (manifestJson host (entry_text f)) = Inr v \<and>
    destructure host v = Inl msg"
  then show "handleZipFile host (Inr content) = failedLoad msg"
    by (intro handleZipFile_error) (simp add: tryLoad_def)
next
  assume "zipFile content ''image_data.js'' = Some f \<and>
    JSON_parse host (manifestJson host (entry_text f)) = Inr v \<and>
    destructure host v = Inr (od, nl) \<and> (od = None \<or> nl = None)"
  then show "handleZipFile host (Inr content) = failedLoad ''Invalid image_data.js format.''"
    by (intro handleZipFile_error) (auto simp: tryLoad_def)
next
  show "\<forall>e \<in> set (failedLoad m). \<not> touchesTilesOrPublishes e"
    by (rule failedLoad_clean)
qed

theorem malformed_manifest_fails_fast_witness:
  "handleZipFile exampleHost (Inr [exampleTile])
     = failedLoad ''image_data.js not found in the ZIP file.'' \<and>
   handleZipFile exampleHost (Inr [exampleManifest ''window.imageData = {;'', exampleTile])
     = failedLoad ''Unexpected token'' \<and>
   handleZipFile exampleHost (Inr [exampleManifest ''window.imageData = {};'', exampleTile])
     = failedLoad ''Invalid image_data.js format.''"
proof -
  have z0: "zipFile [exampleTile] ''image_data.js'' = None"
    by (simp add: zipFile_def exampleTile_def)
  have z1: "zipFile [exampleManifest t, exampleTile] ''image_data.js'' = Some (exampleManifest t)" for t
    by (simp add: zipFile_def exampleManifest_def)
  have m1: "manifestJson exampleHost (entry_text (exampleManifest ''window.imageData = {;'')) = ''{''"
    by (simp add: manifestJson_def exampleManifest_def exampleHost_def asciiTrim_def asciiSpace_def
          stripSemicolon_def)
  have m2: "manifestJson exampleHost (entry_text (exampleManifest ''window.imageData = {};'')) = ''{}''"
    by (simp add: manifestJson_def exampleManifest_def exampleHost_def asciiTrim_def asciiSpace_def
          stripSemicolon_def)
  have p1: "JSON_parse exampleHost ''{'' = Inl ''Unexpected token''"
    by (simp add: exampleHost_def)
  have p2: "JSON_parse exampleHost ''{}'' = Inr (JObj [])"
    by (simp add: exampleHost_def)
  have d2: "destructure exampleHost (JObj []) = Inr (None, None)"
    by simp
  note t = malformed_manifest_fails_fast
  show ?thesis
    using t [of "[exampleTile]" exampleHost]
      t [of "[exampleManifest ''window.imageData = {;'', exampleTile]" exampleHost
            "exampleManifest ''window.imageData = {;''" "''Unexpected token''"]
      t [of "[exampleManifest ''window.imageData = {};'', exampleTile]" exampleHost
            "exampleManifest ''window.imageData = {};''" _ "JObj []" None None
            "''Invalid image_data.js format.''"]
      z0 z1 m1 m2 p1 p2 d2
    by simp
qed

text \<open>
  A manifest whose \<open>numLevels\<close> is 0, as the Python script writes it for a 64 by 64
  image, is rejected by the same check.
\<close>

lemma zero_levels_manifest_rejected:
  assumes "zipFile content ''image_data.js'' = Some f"
    and "JSON_parse host (manifestJson host (entry_text f)) = Inr (JObj kvs)"
    and "map_of kvs ''numLevels'' = Some (JNum 0)"
  shows "handleZipFile host (Inr content) = failedLoad ''Invalid image_data.js format.''"
  using assms by (intro handleZipFile_error) (simp add: tryLoad_def)

section \<open>Initialization on a pyramid without levels\<close>

lemma worker_64:
  "worker (Some (64, 64)) hostSucceeds =
     [Posted (Done \<lparr> built_tiles = [], built_width = 64, built_height = 64,
                     built_numLevels = 0 \<rparr>)]"
proof -
  have "worker_numLevels 64 64 = 0" by (simp add: worker_numLevels_eq)
  then show ?thesis by (simp add: worker_Some)
qed

text \<open>
  The claim as first stated, for every pyramid, fails on the pyramid the worker builds
  from a 64 by 64 image: it has \<open>numLevels = 0\<close>, the scan of \<open>getInitialState\<close> does not
  run, and the state it returns has \<open>zoomIndex = minZoomIndex = 0\<close> while
  \<open>numLevels - 1 = -1\<close>.
\<close>

theorem zoomIndex_invariant_counterexample:
  "map_option toImageData (donePayload (worker (Some (64, 64)) hostSucceeds))
     = Some \<lparr> originalDimensions = \<lparr> width = 64, height = 64 \<rparr>, numLevels = 0 \<rparr> \<and>
   getInitialState \<lparr> originalDimensions = \<lparr> width = 64, height = 64 \<rparr>, numLevels = 0 \<rparr>
                   \<lparr> width = 400, height = 400 \<rparr>
     = Some \<lparr> zoomIndex = 0, minZoomIndex = 0, pan = \<lparr> x_of = - 136, y_of = - 136 \<rparr>,
              viewportSize = \<lparr> width = 400, height = 400 \<rparr> \<rparr> \<and>
   \<not> zoomIndexInRange \<lparr> originalDimensions = \<lparr> width = 64, height = 64 \<rparr>, numLevels = 0 \<rparr>
       \<lparr> zoomIndex = 0, minZoomIndex = 0, pan = \<lparr> x_of = - 136, y_of = - 136 \<rparr>,
         viewportSize = \<lparr> width = 400, height = 400 \<rparr> \<rparr>"
proof -
  let ?d = "\<lparr> originalDimensions = \<lparr> width = 64, height = 64 \<rparr>, numLevels = 0 \<rparr>"
  have sc: "scanBase ?d \<lparr> width = 400, height = 400 \<rparr> 0 0 = 0"
    by (simp add: scanBase.simps)
  show ?thesis
    by (simp add: worker_64 toImageData_def getInitialState_def sc worldSizeAt_def levelScale_def
          clampPan_def clampAxis_def zoomIndexInRange_def)
qed

end
